theory Spec2Isabelle
  imports Complex_Main "HOL-Library.Sublist" "HOL-Library.Multiset"
begin

section \<open>Strings\<close>

text \<open>
  Python strings are modelled as \<open>string\<close> (lists of 8-bit characters), so the model
  covers ASCII text. \<open>str.lower()\<close> maps the letters A..Z to a..z and leaves every other
  character alone; \<open>a in b\<close> on two strings is the contiguous-substring test, which is
  \<open>sublist a b\<close>.
\<close>

definition lower_char :: "char \<Rightarrow> char" where
  "lower_char c =
     (case map_of (zip ''ABCDEFGHIJKLMNOPQRSTUVWXYZ'' ''abcdefghijklmnopqrstuvwxyz'') c of
        None \<Rightarrow> c
      | Some d \<Rightarrow> d)"

definition lower :: "string \<Rightarrow> string" where
  "lower s = map lower_char s"

section \<open>Data model (models.py)\<close>

text \<open>
  Python floats are modelled as exact reals: rounding is not modelled. A
  \<open>datetime\<close> is its calendar date and the time of day, the latter folded into one
  number of microseconds since midnight (the order of two datetimes is the
  lexicographic order of year, month, day and time of day, as in Python).
\<close>

record datetime =
  dt_year :: int
  dt_month :: int
  dt_day :: int
  dt_tod :: int

record education =
  degree :: string
  institution :: string
  start_date :: "datetime option"
  end_date :: "datetime option"
  gpa :: string
  field_of_study :: string

record experience =
  title :: string
  company :: string
  start_date :: "datetime option"
  end_date :: "datetime option"
  description :: string
  duration_years :: real

record resume_info =
  name :: string
  contact :: "string \<rightharpoonup> string"
  skills :: "string list"
  education :: "education list"
  experience :: "experience list"
  total_experience_years :: real
  raw_text :: string

text \<open>
  An entry of the in-memory store \<open>resumes_data\<close> of app.py: the dictionary
  \<open>{'filename': ..., 'info': ...}\<close>. The store itself is a Python dict, iterated in
  insertion order: an association list whose keys (the resume ids) are distinct.
\<close>

record resume_data =
  filename :: string
  info :: resume_info

text \<open>
  The dictionary \<open>candidate_match\<close> built by \<open>match_candidates\<close>. The key
  \<open>'rank'\<close> is absent until \<open>rank_candidates\<close> stores it: \<open>rank = None\<close>.
\<close>

record candidate_match =
  resume_id :: string
  name :: string
  skills :: "string list"
  total_experience :: real
  matched_skills :: "string list"
  missing_skills :: "string list"
  match_score :: real
  rank :: "int option"

section \<open>Calendar deltas (dateutil, as used by resume\_parser.py)\<close>

text \<open>
  \<open>extract_experience\<close> computes a duration with \<open>relativedelta(dt1, dt2)\<close> of the
  dateutil library, which is not part of this repository. The model follows the
  library's constructor for two datetimes, restricted to what the parser reads: the
  fields \<open>years\<close> and \<open>months\<close>. Python's \<open>datetime\<close> type only holds valid dates;
  \<open>valid_datetime\<close> states that invariant.
\<close>

definition dt_less :: "datetime \<Rightarrow> datetime \<Rightarrow> bool" where
  "dt_less a b =
     (dt_year a < dt_year b \<or> (dt_year a = dt_year b \<and>
       (dt_month a < dt_month b \<or> (dt_month a = dt_month b \<and>
         (dt_day a < dt_day b \<or> (dt_day a = dt_day b \<and> dt_tod a < dt_tod b))))))"

definition isleap :: "int \<Rightarrow> bool" where
  "isleap year = (year mod 4 = 0 \<and> (year mod 100 \<noteq> 0 \<or> year mod 400 = 0))"

text \<open>\<open>calendar.monthrange(year, month)[1]\<close>, for a month in 1..12.\<close>

definition days_in_month :: "int \<Rightarrow> int \<Rightarrow> int" where
  "days_in_month year month =
     (if month = 2 then (if isleap year then 29 else 28)
      else if month = 4 \<or> month = 6 \<or> month = 9 \<or> month = 11 then 30 else 31)"


text \<open>
  \<open>relativedelta._set_months\<close>: the pair \<open>(years, months)\<close> for a number of
  months, both with the sign of that number.
\<close>

definition set_months :: "int \<Rightarrow> int \<times> int" where
  "set_months months =
     (if \<bar>months\<bar> > 11
      then (let s = sgn months; d = (months * s) div 12; m = (months * s) mod 12
            in (d * s, m * s))
      else (0, months))"

text \<open>
  \<open>relativedelta.__radd__\<close> for a delta that only has years and months: the month is
  brought back into 1..12 by one carry, and the day is cut to the length of the month.
\<close>

definition rd_add :: "datetime \<Rightarrow> int \<times> int \<Rightarrow> datetime" where
  "rd_add dt delta =
     (let year = dt_year dt + fst delta;
          month = dt_month dt;
          (year, month) =
            (if snd delta \<noteq> 0
             then (let month = month + snd delta
                   in if month > 12 then (year + 1, month - 12)
                      else if month < 1 then (year - 1, month + 12)
                      else (year, month))
             else (year, month));
          day = min (days_in_month year month) (dt_day dt)
      in dt\<lparr>dt_year := year, dt_month := month, dt_day := day\<rparr>)"

text \<open>
  The loop \<open>while compare(dt1, dtm): months += increment\<close>. With \<open>up\<close> (that is
  \<open>dt1 < dt2\<close>) the comparison is \<open>dt1 > dtm\<close> and the increment is 1; otherwise the
  comparison is \<open>dt1 < dtm\<close> and the increment is -1. The loop ends for all
  arguments, since the year of \<open>dtm\<close> follows \<open>months\<close>.
\<close>

function adjust :: "bool \<Rightarrow> datetime \<Rightarrow> datetime \<Rightarrow> int \<Rightarrow> int" where
  "adjust up dt1 dt2 months =
     (let dtm = rd_add dt2 (set_months months)
      in if (if up then dt_less dtm dt1 else dt_less dt1 dtm)
         then adjust up dt1 dt2 (months + (if up then 1 else - 1))
         else months)"
  by pat_completeness auto
termination
proof (relation "measure (\<lambda>(up, dt1, dt2, months).
          if up then nat (12 * (dt_year dt1 - dt_year dt2) + 24 - months)
          else nat (months - 12 * (dt_year dt1 - dt_year dt2) + 24))")
  show "wf (measure (\<lambda>(up, dt1, dt2, months).
          if up then nat (12 * (dt_year dt1 - dt_year dt2) + 24 - months)
          else nat (months - 12 * (dt_year dt1 - dt_year dt2) + 24)))"
    by simp
next
  fix up dt1 dt2 months x
  assume x: "x = rd_add dt2 (set_months months)"
    and c: "if up then dt_less x dt1 else dt_less dt1 x"
  have s: "12 * fst (set_months months) + snd (set_months months) = months"
    unfolding set_months_def Let_def
    by (cases "months < 0") (simp_all add: sgn_if, presburger+)
  have b1: "12 * fst (set_months months) \<le> months + 11"
    using s unfolding set_months_def Let_def
    by (cases "months < 0"; simp add: sgn_if split: if_splits; presburger)
  have b2: "months - 11 \<le> 12 * fst (set_months months)"
    using s unfolding set_months_def Let_def
    by (cases "months < 0"; simp add: sgn_if split: if_splits; presburger)
  have y1: "dt_year x \<le> dt_year dt2 + fst (set_months months) + 1"
    unfolding x rd_add_def Let_def by (auto split: prod.splits if_splits)
  have y2: "dt_year dt2 + fst (set_months months) - 1 \<le> dt_year x"
    unfolding x rd_add_def Let_def by (auto split: prod.splits if_splits)
  show "((up, dt1, dt2, months + (if up then 1 else - 1)), (up, dt1, dt2, months))
        \<in> measure (\<lambda>(up, dt1, dt2, months).
          if up then nat (12 * (dt_year dt1 - dt_year dt2) + 24 - months)
          else nat (months - 12 * (dt_year dt1 - dt_year dt2) + 24))"
  proof (cases up)
    case True
    with c have "dt_year x \<le> dt_year dt1" by (auto simp: dt_less_def)
    with b2 y2 True show ?thesis by simp
  next
    case False
    with c have "dt_year dt1 \<le> dt_year x" by (auto simp: dt_less_def)
    with b1 y1 False show ?thesis by simp
  qed
qed

declare adjust.simps [simp del]

text \<open>
  \<open>relativedelta(dt1, dt2)\<close>: the fields \<open>(years, months)\<close> of the result.
\<close>

definition relativedelta :: "datetime \<Rightarrow> datetime \<Rightarrow> int \<times> int" where
  "relativedelta dt1 dt2 =
     (let months = (dt_year dt1 - dt_year dt2) * 12 + (dt_month dt1 - dt_month dt2)
      in set_months (adjust (dt_less dt1 dt2) dt1 dt2 months))"

section \<open>The resume structurer (resume\_parser.py)\<close>

text \<open>\<open>Experience()\<close>: the constructor's defaults.\<close>

definition new_experience :: experience where
  "new_experience =
     \<lparr> title = [], company = [], start_date = None, end_date = None,
       description = [], duration_years = 0.0 \<rparr>"

text \<open>\<open>delta.years + (delta.months / 12)\<close>.\<close>

definition delta_years :: "int \<times> int \<Rightarrow> real" where
  "delta_years delta = real_of_int (fst delta) + (real_of_int (snd delta) / 12)"

text \<open>
  The duration step of \<open>extract_experience\<close> (the \<open>if exp.start_date and exp.end_date
  ... elif exp.start_date ...\<close> after the dates of an entry were parsed); the entry
  \<open>exp\<close> of the source is called \<open>entry\<close>. \<open>now\<close> is
  the value of \<open>datetime.now()\<close>. An entry whose dates did not parse keeps the default
  duration.
\<close>

definition calculate_duration :: "datetime \<Rightarrow> experience \<Rightarrow> experience" where
  "calculate_duration now entry =
     (case start_date entry of
        None \<Rightarrow> entry
      | Some s \<Rightarrow>
          (case end_date entry of
             Some e \<Rightarrow> entry\<lparr>duration_years := delta_years (relativedelta e s)\<rparr>
           | None \<Rightarrow> entry\<lparr>duration_years := delta_years (relativedelta now s)\<rparr>))"

text \<open>
  \<open>calculate_total_experience\<close>: \<open>sum\<close> adds the durations from the left, starting
  at 0.
\<close>

definition calculate_total_experience :: "experience list \<Rightarrow> real" where
  "calculate_total_experience experience_list =
     (if experience_list = [] then 0.0
      else foldl (\<lambda>acc entry. acc + duration_years entry) 0 experience_list)"

text \<open>
  The field extractors and the spaCy pipeline \<open>nlp\<close> rest on regular expressions,
  spaCy and dateutil's parser; \<open>extract_information\<close> takes them as parameters. Each
  returns its value or raises: \<open>Inl\<close> is the exception.
\<close>

datatype py_exception = Exception string

record 'doc extractors =
  nlp :: "string \<Rightarrow> py_exception + 'doc"
  extract_name :: "'doc \<Rightarrow> string \<Rightarrow> py_exception + string"
  extract_contact_info :: "string \<Rightarrow> py_exception + (string \<rightharpoonup> string)"
  extract_skills :: "string \<Rightarrow> py_exception + string list"
  extract_education :: "string \<Rightarrow> 'doc \<Rightarrow> py_exception + education list"
  extract_experience :: "string \<Rightarrow> 'doc \<Rightarrow> py_exception + experience list"

text \<open>
  The body of the \<open>try\<close> block of \<open>extract_information\<close>: the calls in the order of
  the source, the first exception ending the block.
\<close>

definition extract_fields :: "'doc extractors \<Rightarrow> string \<Rightarrow> py_exception + resume_info" where
  "extract_fields E text =
     (case nlp E text of Inl e \<Rightarrow> Inl e | Inr doc \<Rightarrow>
      case extract_name E doc text of Inl e \<Rightarrow> Inl e | Inr n \<Rightarrow>
      case extract_contact_info E text of Inl e \<Rightarrow> Inl e | Inr c \<Rightarrow>
      case extract_skills E text of Inl e \<Rightarrow> Inl e | Inr s \<Rightarrow>
      case extract_education E text doc of Inl e \<Rightarrow> Inl e | Inr ed \<Rightarrow>
      case extract_experience E text doc of Inl e \<Rightarrow> Inl e | Inr ex \<Rightarrow>
        Inr \<lparr> resume_info.name = n, contact = c, resume_info.skills = s,
              education = ed, experience = ex,
              total_experience_years = calculate_total_experience ex,
              raw_text = text \<rparr>)"

text \<open>
  \<open>extract_information(text)\<close>: \<open>text\<close> is \<open>None\<close> or a string; the result is
  \<open>None\<close> or the record. \<open>except Exception\<close> turns every exception of the block into
  \<open>None\<close>.
\<close>

definition extract_information :: "'doc extractors \<Rightarrow> string option \<Rightarrow> resume_info option" where
  "extract_information E text =
     (case text of
        None \<Rightarrow> None
      | Some t \<Rightarrow>
          if t = [] then None
          else (case extract_fields E t of Inl e \<Rightarrow> None | Inr resume \<Rightarrow> Some resume))"

section \<open>Skill matching (recommendation\_system.py)\<close>

text \<open>
  \<open>similarity_score(a, b)\<close> is \<open>SequenceMatcher(None, a.lower(), b.lower()).ratio()\<close>.
  \<open>SequenceMatcher\<close> belongs to Python's difflib, not to this repository: its
  \<open>ratio\<close> is the parameter \<open>ratio\<close> of the model, and every theorem below holds
  whatever that function returns.
\<close>

definition similarity_score :: "(string \<Rightarrow> string \<Rightarrow> real) \<Rightarrow> string \<Rightarrow> string \<Rightarrow> real" where
  "similarity_score ratio a b = ratio (lower a) (lower b)"

text \<open>The condition of the inner \<open>if\<close> of \<open>match_skills\<close>.\<close>

definition skill_hit :: "(string \<Rightarrow> string \<Rightarrow> real) \<Rightarrow> real \<Rightarrow> string \<Rightarrow> string \<Rightarrow> bool" where
  "skill_hit ratio threshold candidate_skill req_skill =
     (sublist (lower req_skill) (lower candidate_skill) \<or>
      sublist (lower candidate_skill) (lower req_skill) \<or>
      similarity_score ratio candidate_skill req_skill \<ge> threshold)"

text \<open>
  The inner loop \<open>for req_skill in required_skills\<close> for one candidate skill, on the
  state \<open>(matched_skills, missing_skills)\<close>. The \<open>break\<close> leaves the loop at the
  first required skill that satisfies the condition, whether or not that skill was still
  missing. \<open>list.remove\<close> deletes the first occurrence: \<open>remove1\<close>.
\<close>

fun scan_required ::
  "(string \<Rightarrow> string \<Rightarrow> real) \<Rightarrow> real \<Rightarrow> string \<Rightarrow> string list \<Rightarrow>
   string list \<times> string list \<Rightarrow> string list \<times> string list" where
  "scan_required ratio threshold candidate_skill [] st = st"
| "scan_required ratio threshold candidate_skill (req_skill # rest) (matched, missing) =
     (if skill_hit ratio threshold candidate_skill req_skill
      then (if req_skill \<in> set missing
            then (matched @ [req_skill], remove1 req_skill missing)
            else (matched, missing))
      else scan_required ratio threshold candidate_skill rest (matched, missing))"

text \<open>The outer loop \<open>for candidate_skill in candidate_skills\<close>.\<close>

fun scan_candidates ::
  "(string \<Rightarrow> string \<Rightarrow> real) \<Rightarrow> real \<Rightarrow> string list \<Rightarrow> string list \<Rightarrow>
   string list \<times> string list \<Rightarrow> string list \<times> string list" where
  "scan_candidates ratio threshold [] required_skills st = st"
| "scan_candidates ratio threshold (candidate_skill # rest) required_skills st =
     scan_candidates ratio threshold rest required_skills
       (scan_required ratio threshold candidate_skill required_skills st)"

definition match_skills ::
  "(string \<Rightarrow> string \<Rightarrow> real) \<Rightarrow> real \<Rightarrow> string list \<Rightarrow> string list \<Rightarrow>
   string list \<times> string list" where
  "match_skills ratio threshold candidate_skills required_skills =
     scan_candidates ratio threshold candidate_skills required_skills ([], required_skills)"

section \<open>Matching candidates (recommendation\_system.py)\<close>

text \<open>
  \<open>resume_info.contact.get("email", "").lower() or resume_info.name.lower()\<close>: the
  lower-cased email unless it is empty, else the lower-cased name.
\<close>

definition candidate_key :: "resume_info \<Rightarrow> string" where
  "candidate_key resume_info =
     (let email = lower (case contact resume_info ''email'' of None \<Rightarrow> '''' | Some e \<Rightarrow> e)
      in if email \<noteq> '''' then email else lower (resume_info.name resume_info))"

text \<open>
  The body of the loop of \<open>match_candidates\<close> after the duplicate check and the
  experience check: \<open>None\<close> is the \<open>continue\<close> of a candidate with no matching skill,
  \<open>Some\<close> the dictionary that is appended. \<open>match_skills\<close> is called with its default
  threshold 0.8.
\<close>

definition score_candidate ::
  "(string \<Rightarrow> string \<Rightarrow> real) \<Rightarrow> string list \<Rightarrow> real \<Rightarrow> string \<Rightarrow> resume_info \<Rightarrow>
   candidate_match option" where
  "score_candidate ratio required_skills min_experience rid resume_info =
     (let (matched, missing) = match_skills ratio 0.8 (resume_info.skills resume_info) required_skills;
          skill_match_score =
            (if required_skills \<noteq> []
             then real (length matched) / real (length required_skills) else 1.0)
      in if length matched = 0 \<and> required_skills \<noteq> [] then None
         else
           let experience_score =
                 (if min_experience > 0
                  then min 1.0 ((total_experience_years resume_info - min_experience) / 5.0)
                  else 0.5);
               match_score = (skill_match_score * 0.7) + (experience_score * 0.3)
           in Some \<lparr> resume_id = rid,
                     name = resume_info.name resume_info,
                     skills = resume_info.skills resume_info,
                     total_experience = total_experience_years resume_info,
                     matched_skills = matched,
                     missing_skills = missing,
                     match_score = match_score,
                     rank = None \<rparr>)"

text \<open>
  The loop \<open>for resume_id, resume_data in resumes_data.items()\<close>, on the state
  \<open>(seen_keys, matching_candidates)\<close>. The key is added to \<open>seen_keys\<close> before the
  experience and skill checks, so a rejected first occurrence still blocks later records
  with the same key.
\<close>

fun match_loop ::
  "(string \<Rightarrow> string \<Rightarrow> real) \<Rightarrow> string list \<Rightarrow> real \<Rightarrow> (string \<times> resume_data) list \<Rightarrow>
   string set \<Rightarrow> candidate_match list \<Rightarrow> candidate_match list" where
  "match_loop ratio required_skills min_experience [] seen_keys matching_candidates =
     matching_candidates"
| "match_loop ratio required_skills min_experience ((rid, resume_data) # rest) seen_keys
     matching_candidates =
     (let resume_info = info resume_data;
          key = candidate_key resume_info
      in if key \<in> seen_keys
         then match_loop ratio required_skills min_experience rest seen_keys matching_candidates
         else if total_experience_years resume_info < min_experience
         then match_loop ratio required_skills min_experience rest (insert key seen_keys)
                matching_candidates
         else (case score_candidate ratio required_skills min_experience rid resume_info of
                 None \<Rightarrow>
                   match_loop ratio required_skills min_experience rest (insert key seen_keys)
                     matching_candidates
               | Some candidate_match \<Rightarrow>
                   match_loop ratio required_skills min_experience rest (insert key seen_keys)
                     (matching_candidates @ [candidate_match])))"

definition match_candidates ::
  "(string \<Rightarrow> string \<Rightarrow> real) \<Rightarrow> (string \<times> resume_data) list \<Rightarrow> string list \<Rightarrow> real \<Rightarrow>
   candidate_match list" where
  "match_candidates ratio resumes_data required_skills min_experience =
     match_loop ratio required_skills min_experience resumes_data {} []"

section \<open>Ranking (recommendation\_system.py)\<close>

text \<open>
  \<open>sorted(candidates, key=lambda x: x['match_score'], reverse=True)\<close> is a stable sort
  in descending order of the key: the stable insertion sort \<open>sort_key\<close> on the negated
  score. The loop over \<open>enumerate(sorted_candidates)\<close> then stores \<open>i + 1\<close> under
  \<open>'rank'\<close>. The argument \<open>required_skills\<close> is not used by the function. The
  dictionaries of the list are separate objects, as \<open>match_candidates\<close> builds them
  (one new dictionary per candidate), so storing a rank in one changes no other.
\<close>

fun assign_ranks :: "int \<Rightarrow> candidate_match list \<Rightarrow> candidate_match list" where
  "assign_ranks i [] = []"
| "assign_ranks i (candidate # rest) = candidate\<lparr>rank := Some (i + 1)\<rparr> # assign_ranks (i + 1) rest"

definition rank_candidates :: "candidate_match list \<Rightarrow> string list \<Rightarrow> candidate_match list" where
  "rank_candidates candidates required_skills =
     assign_ranks 0 (sort_key (\<lambda>x. - match_score x) candidates)"

section \<open>Notions of the specification\<close>

text \<open>
  Some extractor raises on the text: the call of \<open>nlp\<close>, or one of the five extractors
  on its result.
\<close>

definition extraction_raises :: "'doc extractors \<Rightarrow> string \<Rightarrow> bool" where
  "extraction_raises E text =
     (case nlp E text of
        Inl e \<Rightarrow> True
      | Inr doc \<Rightarrow>
          isl (extract_name E doc text) \<or> isl (extract_contact_info E text) \<or>
          isl (extract_skills E text) \<or> isl (extract_education E text doc) \<or>
          isl (extract_experience E text doc))"

text \<open>
  The records that survive deduplication, in the words of the specification: a record
  is kept when no earlier record (and no key of \<open>seen\<close>) has its candidate key.
\<close>

fun dedup_by_key ::
  "string set \<Rightarrow> (string \<times> resume_data) list \<Rightarrow> (string \<times> resume_data) list" where
  "dedup_by_key seen [] = []"
| "dedup_by_key seen ((rid, d) # rest) =
     (let key = candidate_key (info d)
      in if key \<in> seen then dedup_by_key seen rest
         else (rid, d) # dedup_by_key (insert key seen) rest)"

text \<open>What the matcher decides for one record that survived deduplication.\<close>

definition judge ::
  "(string \<Rightarrow> string \<Rightarrow> real) \<Rightarrow> string list \<Rightarrow> real \<Rightarrow> string \<times> resume_data \<Rightarrow>
   candidate_match option" where
  "judge ratio required_skills min_experience r =
     (if total_experience_years (info (snd r)) < min_experience then None
      else score_candidate ratio required_skills min_experience (fst r) (info (snd r)))"

text \<open>The candidate key of the stored record a result was built from.\<close>

definition key_of_result :: "(string \<times> resume_data) list \<Rightarrow> candidate_match \<Rightarrow> string option" where
  "key_of_result resumes_data c =
     map_option (\<lambda>d. candidate_key (info d)) (map_of resumes_data (resume_id c))"

text \<open>A result without its rank: what \<open>rank_candidates\<close> leaves untouched.\<close>

definition erase_rank :: "candidate_match \<Rightarrow> candidate_match" where
  "erase_rank c = c\<lparr>rank := None\<rparr>"

section \<open>Example data\<close>

text \<open>
  A store of three parsed resumes. The second has the email of the first in another
  letter case; the third has no email, so its key is its lower-cased name.
\<close>

definition ann :: resume_info where
  "ann = \<lparr> resume_info.name = ''Ann Lee'',
           contact = [''email'' \<mapsto> ''Ann@X.com'', ''phone'' \<mapsto> '''', ''linkedin'' \<mapsto> '''',
                      ''address'' \<mapsto> ''''],
           resume_info.skills = [''python''], education = [], experience = [],
           total_experience_years = 2, raw_text = ''Ann Lee'' \<rparr>"

definition ann_again :: resume_info where
  "ann_again = ann\<lparr> resume_info.name := ''A. Lee'',
           contact := [''email'' \<mapsto> ''ann@x.com'', ''phone'' \<mapsto> '''', ''linkedin'' \<mapsto> '''',
                       ''address'' \<mapsto> ''''],
           total_experience_years := 4 \<rparr>"

definition bob :: resume_info where
  "bob = \<lparr> resume_info.name = ''Bob Ray'',
           contact = [''email'' \<mapsto> '''', ''phone'' \<mapsto> '''', ''linkedin'' \<mapsto> '''',
                      ''address'' \<mapsto> ''''],
           resume_info.skills = [''python''], education = [], experience = [],
           total_experience_years = 1, raw_text = ''Bob Ray'' \<rparr>"

definition example_store :: "(string \<times> resume_data) list" where
  "example_store =
     [(''id-1'', \<lparr>filename = ''ann.pdf'', info = ann\<rparr>),
      (''id-2'', \<lparr>filename = ''ann2.pdf'', info = ann_again\<rparr>),
      (''id-3'', \<lparr>filename = ''bob.pdf'', info = bob\<rparr>)]"

definition ann_match :: "real \<Rightarrow> candidate_match" where
  "ann_match score =
     \<lparr> resume_id = ''id-1'', name = ''Ann Lee'', skills = [''python''], total_experience = 2,
       matched_skills = [''python''], missing_skills = [''java''], match_score = score,
       rank = None \<rparr>"

definition bob_match :: "real \<Rightarrow> candidate_match" where
  "bob_match score =
     \<lparr> resume_id = ''id-3'', name = ''Bob Ray'', skills = [''python''], total_experience = 1,
       matched_skills = [''python''], missing_skills = [''java''], match_score = score,
       rank = None \<rparr>"

text \<open>
  Dates for the structurer: a range written forwards and the same range written
  backwards, as the date parser returns them for the texts "2019 - 2021" and
  "2021 - 2019" (a bare year takes its month and day from the current date).
\<close>

definition date_2019 :: datetime where
  "date_2019 = \<lparr>dt_year = 2019, dt_month = 11, dt_day = 3, dt_tod = 0\<rparr>"

definition date_2021 :: datetime where
  "date_2021 = \<lparr>dt_year = 2021, dt_month = 11, dt_day = 3, dt_tod = 0\<rparr>"

definition example_now :: datetime where
  "example_now = \<lparr>dt_year = 2026, dt_month = 11, dt_day = 3, dt_tod = 45000000000\<rparr>"


definition forward_entry :: experience where
  "forward_entry = new_experience\<lparr>start_date := Some date_2019, end_date := Some date_2021\<rparr>"

text \<open>
  Stand-ins for the extractors, to run \<open>extract_information\<close> on an example: the
  pipeline raises on a long text, and the experience section holds the forward range.
\<close>

definition example_extractors :: "unit extractors" where
  "example_extractors =
     \<lparr> nlp = (\<lambda>text. if length text > 20 then Inl (Exception ''text too long'') else Inr ()),
       extract_name = (\<lambda>doc text. Inr text),
       extract_contact_info = (\<lambda>text. Inr [''email'' \<mapsto> '''']),
       extract_skills = (\<lambda>text. Inr [''python'']),
       extract_education = (\<lambda>text doc. Inr []),
       extract_experience = (\<lambda>text doc. Inr [calculate_duration example_now forward_entry]) \<rparr>"

definition example_resume :: resume_info where
  "example_resume =
     \<lparr> resume_info.name = ''Ann Lee'', contact = [''email'' \<mapsto> ''''],
       resume_info.skills = [''python''], education = [],
       experience = [calculate_duration example_now forward_entry],
       total_experience_years = 2, raw_text = ''Ann Lee'' \<rparr>"

section \<open>Properties of skill matching\<close>

lemma scan_required_mset:
  "scan_required ratio threshold c reqs (matched, missing) = (matched', missing') \<Longrightarrow>
   mset matched' + mset missing' = mset matched + mset missing"
  by (induction reqs) (auto split: if_splits)

lemma scan_candidates_mset:
  "scan_candidates ratio threshold cs reqs (matched, missing) = (matched', missing') \<Longrightarrow>
   mset matched' + mset missing' = mset matched + mset missing"
proof (induction cs arbitrary: matched missing)
  case Nil
  then show ?case by simp
next
  case (Cons c cs)
  obtain m1 m2 where st: "scan_required ratio threshold c reqs (matched, missing) = (m1, m2)"
    by (cases "scan_required ratio threshold c reqs (matched, missing)")
  from Cons.prems st have "scan_candidates ratio threshold cs reqs (m1, m2) = (matched', missing')"
    by simp
  then have "mset matched' + mset missing' = mset m1 + mset m2"
    by (rule Cons.IH)
  with scan_required_mset [OF st] show ?case by simp
qed

lemma match_skills_mset:
  "match_skills ratio threshold cs reqs = (matched, missing) \<Longrightarrow>
   mset matched + mset missing = mset reqs"
  unfolding match_skills_def by (drule scan_candidates_mset) simp

lemma match_skills_partition:
  assumes "match_skills ratio threshold cs reqs = (matched, missing)" and "distinct reqs"
  shows "set matched \<inter> set missing = {}" and "set matched \<union> set missing = set reqs"
proof -
  have m: "mset matched + mset missing = mset reqs"
    using assms(1) by (rule match_skills_mset)
  then have "mset (matched @ missing) = mset reqs" by simp
  then have d: "distinct (matched @ missing)" and s: "set (matched @ missing) = set reqs"
    using assms(2) by (metis mset_eq_imp_distinct_iff, metis mset_eq_setD)
  from d show "set matched \<inter> set missing = {}" by simp
  from s show "set matched \<union> set missing = set reqs" by simp
qed

section \<open>Properties of the matcher\<close>

lemma match_loop_map_filter:
  "match_loop ratio reqs mn rs seen acc =
     acc @ List.map_filter (judge ratio reqs mn) (dedup_by_key seen rs)"
proof (induction rs arbitrary: seen acc)
  case Nil
  then show ?case by (simp add: map_filter_simps)
next
  case (Cons r rs)
  obtain rid d where r: "r = (rid, d)" by (cases r)
  show ?case
    unfolding r
    by (simp add: Cons.IH Let_def judge_def map_filter_simps split: option.splits)
qed

lemma match_candidates_map_filter:
  "match_candidates ratio rs reqs mn = List.map_filter (judge ratio reqs mn) (dedup_by_key {} rs)"
  by (simp add: match_candidates_def match_loop_map_filter)

lemma in_match_candidates:
  "c \<in> set (match_candidates ratio rs reqs mn) \<longleftrightarrow>
     (\<exists>r \<in> set (dedup_by_key {} rs). judge ratio reqs mn r = Some c)"
  by (force simp: match_candidates_map_filter map_filter_def)

lemma score_candidate_fields:
  assumes "score_candidate ratio reqs mn rid ri = Some c"
  shows "(matched_skills c, missing_skills c) = match_skills ratio 0.8 (resume_info.skills ri) reqs"
    and "resume_id c = rid"
    and "total_experience c = total_experience_years ri"
    and "match_score c =
           (if reqs \<noteq> [] then real (length (matched_skills c)) / real (length reqs) else 1) * 0.7 +
           (if mn > 0 then min 1 ((total_experience_years ri - mn) / 5) else 0.5) * 0.3"
    and "reqs \<noteq> [] \<Longrightarrow> matched_skills c \<noteq> []"
  using assms
  by (auto simp: score_candidate_def Let_def split: prod.splits if_splits)


lemma match_skills_length:
  "match_skills ratio threshold cs reqs = (matched, missing) \<Longrightarrow>
   length matched + length missing = length reqs"
  by (drule match_skills_mset) (metis length_append mset_append size_mset)

lemma judge_Some:
  "judge ratio reqs mn r = Some c \<longleftrightarrow>
     \<not> total_experience_years (info (snd r)) < mn \<and>
     score_candidate ratio reqs mn (fst r) (info (snd r)) = Some c"
  by (simp add: judge_def)

lemma score_candidate_None:
  "score_candidate ratio reqs mn rid ri = None \<longleftrightarrow>
     reqs \<noteq> [] \<and> fst (match_skills ratio 0.8 (resume_info.skills ri) reqs) = []"
  by (auto simp: score_candidate_def Let_def split: prod.splits)

lemma dedup_subset: "set (dedup_by_key seen rs) \<subseteq> set rs"
proof (induction rs arbitrary: seen)
  case Nil
  then show ?case by simp
next
  case (Cons r rs)
  obtain rid d where r: "r = (rid, d)" by (cases r)
  show ?case
    using Cons.IH [of seen] Cons.IH [of "insert (candidate_key (info d)) seen"]
    by (auto simp: r Let_def)
qed

lemma dedup_not_seen:
  "r \<in> set (dedup_by_key seen rs) \<Longrightarrow> candidate_key (info (snd r)) \<notin> seen"
proof (induction rs arbitrary: seen)
  case Nil
  then show ?case by simp
next
  case (Cons x rs)
  obtain rid d where x: "x = (rid, d)" by (cases x)
  show ?case
  proof (cases "candidate_key (info d) \<in> seen")
    case True
    with Cons.prems have "r \<in> set (dedup_by_key seen rs)" by (simp add: x)
    then show ?thesis by (rule Cons.IH)
  next
    case False
    with Cons.prems have "r = (rid, d) \<or> r \<in> set (dedup_by_key (insert (candidate_key (info d)) seen) rs)"
      by (simp add: x Let_def)
    then show ?thesis
    proof
      assume "r = (rid, d)"
      with False show ?thesis by simp
    next
      assume "r \<in> set (dedup_by_key (insert (candidate_key (info d)) seen) rs)"
      then have "candidate_key (info (snd r)) \<notin> insert (candidate_key (info d)) seen"
        by (rule Cons.IH)
      then show ?thesis by simp
    qed
  qed
qed

lemma dedup_keys_distinct:
  "distinct (map (\<lambda>r. candidate_key (info (snd r))) (dedup_by_key seen rs))"
proof (induction rs arbitrary: seen)
  case Nil
  then show ?case by simp
next
  case (Cons x rs)
  obtain rid d where x: "x = (rid, d)" by (cases x)
  show ?case
  proof (cases "candidate_key (info d) \<in> seen")
    case True
    then show ?thesis using Cons.IH [of seen] by (simp add: x)
  next
    case False
    have "candidate_key (info d) \<notin>
            (\<lambda>r. candidate_key (info (snd r))) ` set (dedup_by_key (insert (candidate_key (info d)) seen) rs)"
      using dedup_not_seen [of _ "insert (candidate_key (info d)) seen" rs] by force
    then show ?thesis
      using False Cons.IH [of "insert (candidate_key (info d)) seen"] by (simp add: x Let_def)
  qed
qed

lemma dedup_nth:
  "distinct (map fst rs) \<Longrightarrow> i < length rs \<Longrightarrow>
   rs ! i \<in> set (dedup_by_key seen rs) \<longleftrightarrow>
     candidate_key (info (snd (rs ! i))) \<notin> seen \<and>
     (\<forall>j<i. candidate_key (info (snd (rs ! j))) \<noteq> candidate_key (info (snd (rs ! i))))"
proof (induction rs arbitrary: seen i)
  case Nil
  then show ?case by simp
next
  case (Cons r rs)
  obtain rid d where r: "r = (rid, d)" by (cases r)
  from Cons.prems have dr: "distinct (map fst rs)" and nr: "rid \<notin> fst ` set rs"
    by (auto simp: r)
  show ?case
  proof (cases i)
    case 0
    have "(rid, d) \<notin> set (dedup_by_key seen rs)"
      using dedup_subset [of seen rs] nr by force
    then show ?thesis by (simp add: 0 r Let_def)
  next
    case (Suc k)
    with Cons.prems have k: "k < length rs" by simp
    then have ne: "rs ! k \<noteq> (rid, d)" using nr by (metis fst_conv image_eqI nth_mem)
    show ?thesis
    proof (cases "candidate_key (info d) \<in> seen")
      case True
      then show ?thesis
        using Cons.IH [OF dr k, of seen]
        by (auto simp: Suc r Let_def less_Suc_eq_0_disj)
    next
      case False
      then show ?thesis
        using Cons.IH [OF dr k, of "insert (candidate_key (info d)) seen"] ne
        by (auto simp: Suc r Let_def less_Suc_eq_0_disj)
    qed
  qed
qed

lemma match_candidates_ids:
  assumes "distinct (map fst rs)" and "i < length rs"
  shows "fst (rs ! i) \<in> resume_id ` set (match_candidates ratio rs reqs mn) \<longleftrightarrow>
           (\<forall>j<i. candidate_key (info (snd (rs ! j))) \<noteq> candidate_key (info (snd (rs ! i)))) \<and>
           \<not> total_experience_years (info (snd (rs ! i))) < mn \<and>
           \<not> (reqs \<noteq> [] \<and>
              fst (match_skills ratio 0.8 (resume_info.skills (info (snd (rs ! i)))) reqs) = [])"
    (is "?L \<longleftrightarrow> ?R")
proof
  assume ?L
  then obtain c where c: "c \<in> set (match_candidates ratio rs reqs mn)"
    and id: "resume_id c = fst (rs ! i)" by force
  from c obtain r where r: "r \<in> set (dedup_by_key {} rs)" and j: "judge ratio reqs mn r = Some c"
    by (auto simp: in_match_candidates)
  from j have sc: "score_candidate ratio reqs mn (fst r) (info (snd r)) = Some c"
    and ex: "\<not> total_experience_years (info (snd r)) < mn"
    by (simp_all add: judge_Some)
  from sc have "resume_id c = fst r" by (rule score_candidate_fields)
  with id have "fst r = fst (rs ! i)" by simp
  moreover from r have "r \<in> set rs" using dedup_subset by blast
  ultimately have ri: "r = rs ! i"
    using assms by (metis distinct_map eq_key_imp_eq_value nth_mem prod.collapse)
  from sc have "score_candidate ratio reqs mn (fst r) (info (snd r)) \<noteq> None" by simp
  then have "\<not> (reqs \<noteq> [] \<and> fst (match_skills ratio 0.8 (resume_info.skills (info (snd r))) reqs) = [])"
    unfolding score_candidate_None .
  with r ex show ?R
    using dedup_nth [OF assms, of "{}"] by (simp add: ri)
next
  assume R: ?R
  then have m: "rs ! i \<in> set (dedup_by_key {} rs)"
    using dedup_nth [OF assms, of "{}"] by simp
  from R have "score_candidate ratio reqs mn (fst (rs ! i)) (info (snd (rs ! i))) \<noteq> None"
    unfolding score_candidate_None by blast
  then obtain c where sc: "score_candidate ratio reqs mn (fst (rs ! i)) (info (snd (rs ! i))) = Some c"
    by blast
  with R have "judge ratio reqs mn (rs ! i) = Some c" by (simp add: judge_Some)
  with m have "c \<in> set (match_candidates ratio rs reqs mn)"
    by (auto simp: in_match_candidates)
  moreover from sc have "resume_id c = fst (rs ! i)" by (rule score_candidate_fields)
  ultimately show ?L by force
qed

lemma distinct_map_filter:
  "distinct (map f xs) \<Longrightarrow> (\<And>x y. x \<in> set xs \<Longrightarrow> g x = Some y \<Longrightarrow> h y = f x) \<Longrightarrow>
   distinct (map h (List.map_filter g xs))"
proof (induction xs)
  case Nil
  then show ?case by (simp add: map_filter_simps)
next
  case (Cons x xs)
  then have IH: "distinct (map h (List.map_filter g xs))" by simp
  show ?case
  proof (cases "g x")
    case None
    with IH show ?thesis by (simp add: map_filter_simps)
  next
    case (Some y)
    have "h y = f x" using Cons.prems(2) [of x y] Some by simp
    moreover have "f x \<notin> h ` set (List.map_filter g xs)"
    proof
      assume "f x \<in> h ` set (List.map_filter g xs)"
      then obtain z x' where "x' \<in> set xs" "g x' = Some z" "h z = f x"
        by (auto simp: map_filter_def)
      then have "f x' = f x" using Cons.prems(2) [of x' z] by simp
      moreover from Cons.prems(1) have "f x \<notin> f ` set xs" by simp
      ultimately show False using \<open>x' \<in> set xs\<close> by (metis image_eqI)
    qed
    ultimately show ?thesis using IH Some by (simp add: map_filter_simps)
  qed
qed

lemma match_candidates_keys_distinct:
  assumes "distinct (map fst rs)"
  shows "distinct (map (key_of_result rs) (match_candidates ratio rs reqs mn))"
proof -
  let ?f = "\<lambda>r. Some (candidate_key (info (snd r)))"
  have d: "distinct (map ?f (dedup_by_key {} rs))"
    using dedup_keys_distinct [of "{}" rs] by (simp add: distinct_map inj_on_def)
  have "\<And>r c. r \<in> set (dedup_by_key {} rs) \<Longrightarrow> judge ratio reqs mn r = Some c \<Longrightarrow>
          key_of_result rs c = ?f r"
  proof -
    fix r c
    assume r: "r \<in> set (dedup_by_key {} rs)" and j: "judge ratio reqs mn r = Some c"
    from j have "score_candidate ratio reqs mn (fst r) (info (snd r)) = Some c"
      by (simp add: judge_Some)
    then have id: "resume_id c = fst r" by (rule score_candidate_fields)
    from r have "r \<in> set rs" using dedup_subset by blast
    then have "map_of rs (fst r) = Some (snd r)" using assms by simp
    then show "key_of_result rs c = ?f r" by (simp add: key_of_result_def id)
  qed
  with d show ?thesis
    unfolding match_candidates_map_filter by (rule distinct_map_filter)
qed

section \<open>Evaluation on the example data\<close>

lemmas eval_defs = match_candidates_def score_candidate_def match_skills_def skill_hit_def
  candidate_key_def lower_def lower_char_def sublist_Cons_right Let_def
  example_store_def ann_def ann_again_def bob_def ann_match_def bob_match_def

lemma example_keys:
  "map (\<lambda>r. candidate_key (info (snd r))) example_store = [''ann@x.com'', ''ann@x.com'', ''bob ray'']"
  by (simp add: eval_defs)

lemma example_match_0:
  "match_candidates ratio example_store [''python'', ''java''] 0 = [ann_match 0.5, bob_match 0.5]"
  by (simp add: eval_defs)

lemma example_match_15:
  "match_candidates ratio example_store [''python'', ''java''] 1.5 = [ann_match 0.38]"
  by (simp add: eval_defs)

lemma example_match_3:
  "match_candidates ratio example_store [''python'', ''java''] 3 = []"
  by (simp add: eval_defs)

lemma result_origin:
  assumes "c \<in> set (match_candidates ratio rs reqs mn)"
  obtains rid d where "(rid, d) \<in> set rs"
    and "score_candidate ratio reqs mn rid (info d) = Some c"
    and "\<not> total_experience_years (info d) < mn"
proof -
  from assms obtain r where r: "r \<in> set (dedup_by_key {} rs)" and j: "judge ratio reqs mn r = Some c"
    by (auto simp: in_match_candidates)
  from r have "(fst r, snd r) \<in> set rs" using dedup_subset by force
  moreover from j have "score_candidate ratio reqs mn (fst r) (info (snd r)) = Some c"
    and "\<not> total_experience_years (info (snd r)) < mn"
    by (simp_all add: judge_Some)
  ultimately show thesis by (rule that)
qed


section \<open>The claims about the matcher\<close>

text \<open>
  Claim C1. For every store of candidate records, every list of required skills without
  duplicates and every minimum experience, each result of \<open>match_candidates\<close> has
  disjoint \<open>matched_skills\<close> and \<open>missing_skills\<close> whose union is the set of required
  skills; the same holds for what \<open>match_skills\<close> returns, for every threshold.
\<close>

theorem matched_missing_partition:
  assumes "distinct required_skills"
  shows "(\<forall>c \<in> set (match_candidates ratio resumes_data required_skills min_experience).
            set (matched_skills c) \<inter> set (missing_skills c) = {} \<and>
            set (matched_skills c) \<union> set (missing_skills c) = set required_skills) \<and>
         set (fst (match_skills ratio threshold candidate_skills required_skills)) \<inter>
           set (snd (match_skills ratio threshold candidate_skills required_skills)) = {} \<and>
         set (fst (match_skills ratio threshold candidate_skills required_skills)) \<union>
           set (snd (match_skills ratio threshold candidate_skills required_skills)) =
           set required_skills"
proof (intro conjI ballI)
  fix c
  assume "c \<in> set (match_candidates ratio resumes_data required_skills min_experience)"
  then obtain r where "judge ratio required_skills min_experience r = Some c"
    by (auto simp: in_match_candidates)
  then have "score_candidate ratio required_skills min_experience (fst r) (info (snd r)) = Some c"
    by (simp add: judge_Some)
  then have "match_skills ratio 0.8 (resume_info.skills (info (snd r))) required_skills =
               (matched_skills c, missing_skills c)"
    by (rule score_candidate_fields(1) [symmetric])
  then show "set (matched_skills c) \<inter> set (missing_skills c) = {}"
    and "set (matched_skills c) \<union> set (missing_skills c) = set required_skills"
    using assms by (rule match_skills_partition)+
next
  have "match_skills ratio threshold candidate_skills required_skills =
          (fst (match_skills ratio threshold candidate_skills required_skills),
           snd (match_skills ratio threshold candidate_skills required_skills))"
    by simp
  then show "set (fst (match_skills ratio threshold candidate_skills required_skills)) \<inter>
           set (snd (match_skills ratio threshold candidate_skills required_skills)) = {}"
    and "set (fst (match_skills ratio threshold candidate_skills required_skills)) \<union>
           set (snd (match_skills ratio threshold candidate_skills required_skills)) =
           set required_skills"
    using assms by (rule match_skills_partition)+
qed

theorem matched_missing_partition_witness:
  "\<forall>ratio. distinct [''python'', ''java''] \<and>
     ann_match 0.5 \<in> set (match_candidates ratio example_store [''python'', ''java''] 0) \<and>
     set (matched_skills (ann_match 0.5)) \<inter> set (missing_skills (ann_match 0.5)) = {} \<and>
     set (matched_skills (ann_match 0.5)) \<union> set (missing_skills (ann_match 0.5)) =
       set [''python'', ''java'']"
proof
  fix ratio :: "string \<Rightarrow> string \<Rightarrow> real"
  have d: "distinct [''python'', ''java'']" by simp
  have m: "ann_match 0.5 \<in> set (match_candidates ratio example_store [''python'', ''java''] 0)"
    by (simp add: example_match_0)
  from matched_missing_partition [OF d, of ratio example_store 0] m
  have "set (matched_skills (ann_match 0.5)) \<inter> set (missing_skills (ann_match 0.5)) = {} \<and>
        set (matched_skills (ann_match 0.5)) \<union> set (missing_skills (ann_match 0.5)) =
          set [''python'', ''java'']"
    by blast
  with d m show "distinct [''python'', ''java''] \<and>
     ann_match 0.5 \<in> set (match_candidates ratio example_store [''python'', ''java''] 0) \<and>
     set (matched_skills (ann_match 0.5)) \<inter> set (missing_skills (ann_match 0.5)) = {} \<and>
     set (matched_skills (ann_match 0.5)) \<union> set (missing_skills (ann_match 0.5)) =
       set [''python'', ''java'']"
    by blast
qed


text \<open>
  Claim C3. Every result of \<open>match_candidates\<close> comes from a stored record, and its
  score is \<open>0.7 * skillScore + 0.3 * experienceScore\<close>, where the skill score is the
  share of required skills that matched (1 when none is required) and the experience
  score is \<open>(total - minimum) / 5\<close> clamped to the interval from 0 to 1 when the
  minimum is positive, and 0.5 otherwise. For the required skills python and java, a
  candidate whose only skill is python (and whose total experience is not negative)
  and the minimum 0, the one result has python matched, java missing and the score 0.5.
\<close>

theorem score_formula:
  "(\<forall>c \<in> set (match_candidates ratio resumes_data required_skills min_experience).
      \<exists>(rid, d) \<in> set resumes_data.
        resume_id c = rid \<and>
        matched_skills c = fst (match_skills ratio 0.8 (resume_info.skills (info d)) required_skills) \<and>
        missing_skills c = snd (match_skills ratio 0.8 (resume_info.skills (info d)) required_skills) \<and>
        match_score c =
          0.7 * (if required_skills = [] then 1
                 else real (length (matched_skills c)) / real (length required_skills)) +
          0.3 * (if min_experience > 0
                 then max 0 (min 1 ((total_experience_years (info d) - min_experience) / 5.0))
                 else 0.5)) \<and>
   (resume_info.skills ri = [''python''] \<and> 0 \<le> total_experience_years ri \<longrightarrow>
      match_candidates ratio [(rid0, \<lparr>filename = f, info = ri\<rparr>)] [''python'', ''java''] 0 =
        [\<lparr> resume_id = rid0, name = resume_info.name ri, skills = [''python''],
           total_experience = total_experience_years ri,
           matched_skills = [''python''], missing_skills = [''java''],
           match_score = 0.5, rank = None \<rparr>])"
proof (intro conjI ballI impI)
  fix c
  assume "c \<in> set (match_candidates ratio resumes_data required_skills min_experience)"
  then obtain rid d where m: "(rid, d) \<in> set resumes_data"
    and sc: "score_candidate ratio required_skills min_experience rid (info d) = Some c"
    and ex: "\<not> total_experience_years (info d) < min_experience"
    by (rule result_origin)
  note f = score_candidate_fields [OF sc]
  from ex have "0 \<le> (total_experience_years (info d) - min_experience) / 5" by simp
  then have "max 0 (min 1 ((total_experience_years (info d) - min_experience) / 5)) =
             min 1 ((total_experience_years (info d) - min_experience) / 5)"
    by simp
  with f(4) have "match_score c =
          0.7 * (if required_skills = [] then 1
                 else real (length (matched_skills c)) / real (length required_skills)) +
          0.3 * (if min_experience > 0
                 then max 0 (min 1 ((total_experience_years (info d) - min_experience) / 5.0))
                 else 0.5)"
    by simp
  moreover from f(1) have "matched_skills c = fst (match_skills ratio 0.8 (resume_info.skills (info d)) required_skills)"
    and "missing_skills c = snd (match_skills ratio 0.8 (resume_info.skills (info d)) required_skills)"
    by (metis fst_conv, metis snd_conv)
  ultimately show "\<exists>(rid, d) \<in> set resumes_data.
        resume_id c = rid \<and>
        matched_skills c = fst (match_skills ratio 0.8 (resume_info.skills (info d)) required_skills) \<and>
        missing_skills c = snd (match_skills ratio 0.8 (resume_info.skills (info d)) required_skills) \<and>
        match_score c =
          0.7 * (if required_skills = [] then 1
                 else real (length (matched_skills c)) / real (length required_skills)) +
          0.3 * (if min_experience > 0
                 then max 0 (min 1 ((total_experience_years (info d) - min_experience) / 5.0))
                 else 0.5)"
    using m f(2) by blast
next
  assume "resume_info.skills ri = [''python''] \<and> 0 \<le> total_experience_years ri"
  then show "match_candidates ratio [(rid0, \<lparr>filename = f, info = ri\<rparr>)] [''python'', ''java''] 0 =
        [\<lparr> resume_id = rid0, name = resume_info.name ri, skills = [''python''],
           total_experience = total_experience_years ri,
           matched_skills = [''python''], missing_skills = [''java''],
           match_score = 0.5, rank = None \<rparr>]"
    by (simp add: match_candidates_def score_candidate_def match_skills_def skill_hit_def
          lower_def lower_char_def sublist_Cons_right Let_def)
qed


theorem score_formula_witness:
  "\<forall>ratio. ann_match 0.38 \<in> set (match_candidates ratio example_store [''python'', ''java''] 1.5) \<and>
     match_score (ann_match 0.38) = 0.7 * (1 / 2) + 0.3 * max 0 (min 1 ((2 - 1.5) / 5)) \<and>
     resume_info.skills ann = [''python''] \<and> 0 \<le> total_experience_years ann \<and>
     match_candidates ratio [(''id-1'', \<lparr>filename = ''ann.pdf'', info = ann\<rparr>)] [''python'', ''java''] 0 =
       [ann_match 0.5]"
proof
  fix ratio :: "string \<Rightarrow> string \<Rightarrow> real"
  have m: "ann_match 0.38 \<in> set (match_candidates ratio example_store [''python'', ''java''] 1.5)"
    by (subst example_match_15) simp
  have h: "resume_info.skills ann = [''python''] \<and> 0 \<le> total_experience_years ann"
    by (simp add: ann_def)
  note t = score_formula [of ratio example_store "[''python'', ''java'']" "1.5" ann "''id-1''" "''ann.pdf''"]
  from t m obtain rid d where "(rid, d) \<in> set example_store" and "resume_id (ann_match 0.38) = rid"
    and sc: "match_score (ann_match 0.38) =
          0.7 * (if [''python'', ''java''] = [] then 1
                 else real (length (matched_skills (ann_match 0.38))) / real (length [''python'', ''java''])) +
          0.3 * (if (1.5::real) > 0
                 then max 0 (min 1 ((total_experience_years (info d) - 1.5) / 5.0))
                 else 0.5)"
    by blast
  then have "d = \<lparr>filename = ''ann.pdf'', info = ann\<rparr>"
    by (auto simp: example_store_def ann_match_def)
  with sc have s: "match_score (ann_match 0.38) = 0.7 * (1 / 2) + 0.3 * max 0 (min 1 ((2 - 1.5) / 5))"
    by (simp add: ann_match_def ann_def)
  from t h have "match_candidates ratio [(''id-1'', \<lparr>filename = ''ann.pdf'', info = ann\<rparr>)] [''python'', ''java''] 0 =
       [ann_match 0.5]"
    by (simp add: ann_match_def ann_def)
  with m s h show "ann_match 0.38 \<in> set (match_candidates ratio example_store [''python'', ''java''] 1.5) \<and>
     match_score (ann_match 0.38) = 0.7 * (1 / 2) + 0.3 * max 0 (min 1 ((2 - 1.5) / 5)) \<and>
     resume_info.skills ann = [''python''] \<and> 0 \<le> total_experience_years ann \<and>
     match_candidates ratio [(''id-1'', \<lparr>filename = ''ann.pdf'', info = ann\<rparr>)] [''python'', ''java''] 0 =
       [ann_match 0.5]"
    by blast
qed

text \<open>
  Claim C4. Every result of \<open>match_candidates\<close> has a score between 0 and 1. This
  holds for every minimum experience, negative ones included.
\<close>

theorem score_in_unit_interval:
  "\<forall>c \<in> set (match_candidates ratio resumes_data required_skills min_experience).
     0 \<le> match_score c \<and> match_score c \<le> 1"
proof
  fix c
  assume "c \<in> set (match_candidates ratio resumes_data required_skills min_experience)"
  then obtain rid d where m: "(rid, d) \<in> set resumes_data"
    and sc: "score_candidate ratio required_skills min_experience rid (info d) = Some c"
    and ex: "\<not> total_experience_years (info d) < min_experience"
    by (rule result_origin)
  note f = score_candidate_fields [OF sc]
  define s where "s = (if required_skills \<noteq> []
       then real (length (matched_skills c)) / real (length required_skills) else 1)"
  define e where "e = (if min_experience > 0
       then min 1 ((total_experience_years (info d) - min_experience) / 5) else 0.5)"
  have "length (matched_skills c) + length (missing_skills c) = length required_skills"
    using f(1) [symmetric] by (rule match_skills_length)
  then have "length (matched_skills c) \<le> length required_skills" by simp
  then have s: "0 \<le> s" "s \<le> 1" by (auto simp: s_def divide_le_eq_1)
  from ex have e: "0 \<le> e" "e \<le> 1" by (auto simp: e_def)
  have "match_score c = s * 0.7 + e * 0.3" using f(4) by (simp add: s_def e_def)
  moreover have "0 \<le> s * 0.7 + e * 0.3" using s e by simp
  moreover have "s * 0.7 + e * 0.3 \<le> 1 * 0.7 + 1 * 0.3"
    using s e by (intro add_mono mult_right_mono) simp_all
  ultimately show "0 \<le> match_score c \<and> match_score c \<le> 1" by simp
qed

theorem score_in_unit_interval_witness:
  "\<forall>ratio. ann_match 0.38 \<in> set (match_candidates ratio example_store [''python'', ''java''] 1.5) \<and>
     0 \<le> match_score (ann_match 0.38) \<and> match_score (ann_match 0.38) \<le> 1"
proof
  fix ratio :: "string \<Rightarrow> string \<Rightarrow> real"
  have m: "ann_match 0.38 \<in> set (match_candidates ratio example_store [''python'', ''java''] 1.5)"
    by (subst example_match_15) simp
  with score_in_unit_interval [of ratio example_store "[''python'', ''java'']" "1.5"]
  show "ann_match 0.38 \<in> set (match_candidates ratio example_store [''python'', ''java''] 1.5) \<and>
     0 \<le> match_score (ann_match 0.38) \<and> match_score (ann_match 0.38) \<le> 1"
    by blast
qed

text \<open>
  Claim C6. The store is a dictionary, so its resume ids are distinct. The results of
  \<open>match_candidates\<close> then come from records with pairwise different candidate keys
  (the lower-cased email, or the lower-cased name when the email is empty): at most one
  result per key. And when two records share their key, the later one is in no result.
\<close>

theorem deduplication_by_key:
  assumes "distinct (map fst resumes_data)"
  shows "distinct (map (key_of_result resumes_data)
                    (match_candidates ratio resumes_data required_skills min_experience)) \<and>
         (\<forall>i j. i < j \<and> j < length resumes_data \<and>
                candidate_key (info (snd (resumes_data ! i))) =
                candidate_key (info (snd (resumes_data ! j))) \<longrightarrow>
                fst (resumes_data ! j) \<notin>
                  resume_id ` set (match_candidates ratio resumes_data required_skills min_experience))"
proof (intro conjI allI impI)
  show "distinct (map (key_of_result resumes_data)
                    (match_candidates ratio resumes_data required_skills min_experience))"
    using assms by (rule match_candidates_keys_distinct)
next
  fix i j
  assume h: "i < j \<and> j < length resumes_data \<and>
                candidate_key (info (snd (resumes_data ! i))) =
                candidate_key (info (snd (resumes_data ! j)))"
  then have "j < length resumes_data" by simp
  from match_candidates_ids [OF assms this, of ratio required_skills min_experience] h
  show "fst (resumes_data ! j) \<notin>
          resume_id ` set (match_candidates ratio resumes_data required_skills min_experience)"
    by blast
qed

theorem deduplication_by_key_witness:
  "\<forall>ratio. distinct (map fst example_store) \<and>
     (0::nat) < 1 \<and> (1::nat) < length example_store \<and>
     candidate_key (info (snd (example_store ! 0))) = candidate_key (info (snd (example_store ! 1))) \<and>
     fst (example_store ! 1) \<notin> resume_id ` set (match_candidates ratio example_store [''python'', ''java''] 0) \<and>
     fst (example_store ! 0) \<in> resume_id ` set (match_candidates ratio example_store [''python'', ''java''] 0) \<and>
     distinct (map (key_of_result example_store) (match_candidates ratio example_store [''python'', ''java''] 0))"
proof
  fix ratio :: "string \<Rightarrow> string \<Rightarrow> real"
  have d: "distinct (map fst example_store)" by (simp add: example_store_def)
  have k: "(0::nat) < 1 \<and> (1::nat) < length example_store \<and>
     candidate_key (info (snd (example_store ! 0))) = candidate_key (info (snd (example_store ! 1)))"
    using example_keys by (simp add: example_store_def)
  note t = deduplication_by_key [OF d, of ratio "[''python'', ''java'']" 0]
  from t k have "fst (example_store ! 1) \<notin> resume_id ` set (match_candidates ratio example_store [''python'', ''java''] 0)"
    by blast
  moreover have "fst (example_store ! 0) \<in> resume_id ` set (match_candidates ratio example_store [''python'', ''java''] 0)"
    by (subst example_match_0) (simp add: example_store_def ann_match_def)
  ultimately show "distinct (map fst example_store) \<and>
     (0::nat) < 1 \<and> (1::nat) < length example_store \<and>
     candidate_key (info (snd (example_store ! 0))) = candidate_key (info (snd (example_store ! 1))) \<and>
     fst (example_store ! 1) \<notin> resume_id ` set (match_candidates ratio example_store [''python'', ''java''] 0) \<and>
     fst (example_store ! 0) \<in> resume_id ` set (match_candidates ratio example_store [''python'', ''java''] 0) \<and>
     distinct (map (key_of_result example_store) (match_candidates ratio example_store [''python'', ''java''] 0))"
    using d k t by blast
qed

text \<open>
  Claim C7. For a store with distinct resume ids, the record at position \<open>i\<close> is in
  the results exactly when no earlier record has its candidate key, its total
  experience is not less than the minimum, and it is not the case that skills are
  required and none matched. In particular a record with a total experience of 1.0 is
  not in the results for the minimum 3.0, whatever its skills.
\<close>

theorem result_iff_accepted:
  assumes "distinct (map fst resumes_data)" and "i < length resumes_data"
  shows "(fst (resumes_data ! i) \<in>
            resume_id ` set (match_candidates ratio resumes_data required_skills min_experience) \<longleftrightarrow>
          (\<forall>j<i. candidate_key (info (snd (resumes_data ! j))) \<noteq>
                  candidate_key (info (snd (resumes_data ! i)))) \<and>
          \<not> total_experience_years (info (snd (resumes_data ! i))) < min_experience \<and>
          \<not> (required_skills \<noteq> [] \<and>
             fst (match_skills ratio 0.8 (resume_info.skills (info (snd (resumes_data ! i))))
                    required_skills) = [])) \<and>
         (total_experience_years (info (snd (resumes_data ! i))) = 1.0 \<longrightarrow>
            fst (resumes_data ! i) \<notin>
              resume_id ` set (match_candidates ratio resumes_data required_skills 3.0))"
proof (intro conjI impI)
  show "fst (resumes_data ! i) \<in>
            resume_id ` set (match_candidates ratio resumes_data required_skills min_experience) \<longleftrightarrow>
          (\<forall>j<i. candidate_key (info (snd (resumes_data ! j))) \<noteq>
                  candidate_key (info (snd (resumes_data ! i)))) \<and>
          \<not> total_experience_years (info (snd (resumes_data ! i))) < min_experience \<and>
          \<not> (required_skills \<noteq> [] \<and>
             fst (match_skills ratio 0.8 (resume_info.skills (info (snd (resumes_data ! i))))
                    required_skills) = [])"
    using assms by (rule match_candidates_ids)
next
  assume "total_experience_years (info (snd (resumes_data ! i))) = 1.0"
  then have "total_experience_years (info (snd (resumes_data ! i))) < 3.0" by simp
  with match_candidates_ids [OF assms, of ratio required_skills "3.0"]
  show "fst (resumes_data ! i) \<notin>
          resume_id ` set (match_candidates ratio resumes_data required_skills 3.0)"
    by blast
qed

theorem result_iff_accepted_witness:
  "\<forall>ratio. distinct (map fst example_store) \<and> (2::nat) < length example_store \<and>
     candidate_key (info (snd (example_store ! 0))) \<noteq> candidate_key (info (snd (example_store ! 2))) \<and>
     candidate_key (info (snd (example_store ! 1))) \<noteq> candidate_key (info (snd (example_store ! 2))) \<and>
     \<not> total_experience_years (info (snd (example_store ! 2))) < 0 \<and>
     fst (match_skills ratio 0.8 (resume_info.skills (info (snd (example_store ! 2))))
            [''python'', ''java'']) = [''python''] \<and>
     fst (example_store ! 2) \<in> resume_id ` set (match_candidates ratio example_store [''python'', ''java''] 0) \<and>
     total_experience_years (info (snd (example_store ! 2))) = 1.0 \<and>
     fst (example_store ! 2) \<notin> resume_id ` set (match_candidates ratio example_store [''python'', ''java''] 3.0)"
proof
  fix ratio :: "string \<Rightarrow> string \<Rightarrow> real"
  have d: "distinct (map fst example_store)" by (simp add: example_store_def)
  have l: "(2::nat) < length example_store" by (simp add: example_store_def)
  have k: "candidate_key (info (snd (example_store ! 0))) \<noteq> candidate_key (info (snd (example_store ! 2))) \<and>
     candidate_key (info (snd (example_store ! 1))) \<noteq> candidate_key (info (snd (example_store ! 2)))"
    using example_keys by (simp add: example_store_def)
  then have k': "\<forall>j<2. candidate_key (info (snd (example_store ! j))) \<noteq>
                candidate_key (info (snd (example_store ! 2)))"
    by (auto simp: less_Suc_eq numeral_2_eq_2)
  have e: "\<not> total_experience_years (info (snd (example_store ! 2))) < 0"
    and e1: "total_experience_years (info (snd (example_store ! 2))) = 1.0"
    by (simp_all add: example_store_def bob_def)
  have m: "fst (match_skills ratio 0.8 (resume_info.skills (info (snd (example_store ! 2))))
            [''python'', ''java'']) = [''python'']"
    by (simp add: eval_defs)
  note t0 = result_iff_accepted [OF d l, of ratio "[''python'', ''java'']" 0]
  note t3 = result_iff_accepted [OF d l, of ratio "[''python'', ''java'']" 3]
  from t0 k' e m have i: "fst (example_store ! 2) \<in> resume_id ` set (match_candidates ratio example_store [''python'', ''java''] 0)"
    by simp
  from t3 e1 have o: "fst (example_store ! 2) \<notin> resume_id ` set (match_candidates ratio example_store [''python'', ''java''] 3.0)"
    by blast
  from d l k e m i e1 o show "distinct (map fst example_store) \<and> (2::nat) < length example_store \<and>
     candidate_key (info (snd (example_store ! 0))) \<noteq> candidate_key (info (snd (example_store ! 2))) \<and>
     candidate_key (info (snd (example_store ! 1))) \<noteq> candidate_key (info (snd (example_store ! 2))) \<and>
     \<not> total_experience_years (info (snd (example_store ! 2))) < 0 \<and>
     fst (match_skills ratio 0.8 (resume_info.skills (info (snd (example_store ! 2))))
            [''python'', ''java'']) = [''python''] \<and>
     fst (example_store ! 2) \<in> resume_id ` set (match_candidates ratio example_store [''python'', ''java''] 0) \<and>
     total_experience_years (info (snd (example_store ! 2))) = 1.0 \<and>
     fst (example_store ! 2) \<notin> resume_id ` set (match_candidates ratio example_store [''python'', ''java''] 3.0)"
    by blast
qed

text \<open>
  Claim C2. A required skill that a candidate skill contains, is contained in, or
  resembles is not always matched: the inner loop of \<open>match_skills\<close> leaves at the
  first required skill the candidate skill hits, also when that skill was matched
  before. A candidate with the skills java and javascript, asked for java and
  javascript, is reported to miss javascript, although the candidate skill javascript
  hits the required skill javascript. The order of the candidate's skills does not
  matter.
\<close>

theorem first_hit_shadows_later_skill:
  "skill_hit ratio 0.8 ''javascript'' ''javascript'' \<and>
   match_skills ratio 0.8 [''java'', ''javascript''] [''java'', ''javascript''] =
     ([''java''], [''javascript'']) \<and>
   match_skills ratio 0.8 [''javascript'', ''java''] [''java'', ''javascript''] =
     ([''java''], [''javascript''])"
  by (simp add: match_skills_def skill_hit_def lower_def lower_char_def sublist_Cons_right)


lemma scan_required_find:
  "scan_required ratio threshold c reqs (matched, missing) =
     (case find (skill_hit ratio threshold c) reqs of
        None \<Rightarrow> (matched, missing)
      | Some r \<Rightarrow> if r \<in> set missing then (matched @ [r], remove1 r missing)
                  else (matched, missing))"
  by (induction reqs) simp_all

lemma scan_candidates_first_hits:
  assumes "distinct reqs" and "mset matched + mset missing = mset reqs"
    and "scan_candidates ratio threshold cs reqs (matched, missing) = (matched', missing')"
  shows "set matched' =
           set matched \<union> {r. \<exists>c \<in> set cs. find (skill_hit ratio threshold c) reqs = Some r}"
  using assms(2,3)
proof (induction cs arbitrary: matched missing)
  case Nil
  then show ?case by simp
next
  case (Cons c cs)
  obtain m1 m2 where st: "scan_required ratio threshold c reqs (matched, missing) = (m1, m2)"
    by (cases "scan_required ratio threshold c reqs (matched, missing)")
  have inv: "mset m1 + mset m2 = mset reqs"
    using scan_required_mset [OF st] Cons.prems(1) by simp
  from Cons.prems(2) st have "scan_candidates ratio threshold cs reqs (m1, m2) = (matched', missing')"
    by simp
  with inv have IH: "set matched' =
      set m1 \<union> {r. \<exists>c \<in> set cs. find (skill_hit ratio threshold c) reqs = Some r}"
    by (rule Cons.IH)
  have "set (matched @ missing) = set reqs"
    using Cons.prems(1) by (metis mset_append mset_eq_setD)
  then have u: "set matched \<union> set missing = set reqs" by simp
  have m1: "set m1 = set matched \<union> {r. find (skill_hit ratio threshold c) reqs = Some r}"
  proof (cases "find (skill_hit ratio threshold c) reqs")
    case None
    with st show ?thesis by (simp add: scan_required_find)
  next
    case (Some r)
    then have "r \<in> set reqs" by (auto simp: find_Some_iff)
    with u have "r \<in> set matched \<or> r \<in> set missing" by blast
    with st Some show ?thesis by (auto simp: scan_required_find split: if_splits)
  qed
  show ?case unfolding IH m1 by auto
qed

text \<open>
  What \<open>match_skills\<close> does match, for required skills without duplicates: a required
  skill is matched exactly when it is the first required skill, in the order of the
  list, that some candidate skill hits; and no required skill is matched twice.
\<close>

theorem matched_iff_first_hit:
  assumes "distinct required_skills"
  shows "set (fst (match_skills ratio threshold candidate_skills required_skills)) =
           {r. \<exists>c \<in> set candidate_skills.
                 find (skill_hit ratio threshold c) required_skills = Some r} \<and>
         distinct (fst (match_skills ratio threshold candidate_skills required_skills))"
proof
  obtain matched missing where
    ms: "match_skills ratio threshold candidate_skills required_skills = (matched, missing)"
    by (cases "match_skills ratio threshold candidate_skills required_skills")
  then have sc: "scan_candidates ratio threshold candidate_skills required_skills ([], required_skills) =
                   (matched, missing)"
    by (simp add: match_skills_def)
  have "set matched = set [] \<union> {r. \<exists>c \<in> set candidate_skills.
                 find (skill_hit ratio threshold c) required_skills = Some r}"
    using assms _ sc by (rule scan_candidates_first_hits) simp
  then show "set (fst (match_skills ratio threshold candidate_skills required_skills)) =
           {r. \<exists>c \<in> set candidate_skills.
                 find (skill_hit ratio threshold c) required_skills = Some r}"
    by (simp add: ms)
  have "mset (matched @ missing) = mset required_skills"
    using match_skills_mset [OF ms] by simp
  then have "distinct (matched @ missing)"
    using assms by (metis mset_eq_imp_distinct_iff)
  then show "distinct (fst (match_skills ratio threshold candidate_skills required_skills))"
    by (simp add: ms)
qed

theorem matched_iff_first_hit_witness:
  "\<forall>ratio. distinct [''java'', ''javascript''] \<and>
     find (skill_hit ratio 0.8 ''javascript'') [''java'', ''javascript''] = Some ''java'' \<and>
     find (skill_hit ratio 0.8 ''java'') [''java'', ''javascript''] = Some ''java'' \<and>
     set (fst (match_skills ratio 0.8 [''java'', ''javascript''] [''java'', ''javascript''])) = {''java''} \<and>
     distinct (fst (match_skills ratio 0.8 [''java'', ''javascript''] [''java'', ''javascript'']))"
proof
  fix ratio :: "string \<Rightarrow> string \<Rightarrow> real"
  have d: "distinct [''java'', ''javascript'']" by simp
  have f1: "find (skill_hit ratio 0.8 ''javascript'') [''java'', ''javascript''] = Some ''java''"
    and f2: "find (skill_hit ratio 0.8 ''java'') [''java'', ''javascript''] = Some ''java''"
    by (simp_all add: skill_hit_def lower_def lower_char_def sublist_Cons_right)
  note t = matched_iff_first_hit [OF d, of ratio "0.8" "[''java'', ''javascript'']"]
  from t f1 f2 have "set (fst (match_skills ratio 0.8 [''java'', ''javascript''] [''java'', ''javascript''])) = {''java''}"
    by auto
  with d f1 f2 t show "distinct [''java'', ''javascript''] \<and>
     find (skill_hit ratio 0.8 ''javascript'') [''java'', ''javascript''] = Some ''java'' \<and>
     find (skill_hit ratio 0.8 ''java'') [''java'', ''javascript''] = Some ''java'' \<and>
     set (fst (match_skills ratio 0.8 [''java'', ''javascript''] [''java'', ''javascript''])) = {''java''} \<and>
     distinct (fst (match_skills ratio 0.8 [''java'', ''javascript''] [''java'', ''javascript'']))"
    by blast
qed

section \<open>Properties of the ranker\<close>

lemma assign_ranks_length: "length (assign_ranks i cs) = length cs"
  by (induction cs arbitrary: i) simp_all

lemma assign_ranks_erase: "map erase_rank (assign_ranks i cs) = map erase_rank cs"
  by (induction cs arbitrary: i) (simp_all add: erase_rank_def)

lemma assign_ranks_score: "map match_score (assign_ranks i cs) = map match_score cs"
  by (induction cs arbitrary: i) simp_all

lemma assign_ranks_nth:
  "n < length cs \<Longrightarrow> rank (assign_ranks i cs ! n) = Some (i + 1 + int n)"
proof (induction cs arbitrary: i n)
  case Nil
  then show ?case by simp
next
  case (Cons c cs)
  show ?case
  proof (cases n)
    case 0
    then show ?thesis by simp
  next
    case (Suc m)
    with Cons.prems have "m < length cs" by simp
    then have "rank (assign_ranks (i + 1) cs ! m) = Some (i + 1 + 1 + int m)"
      by (rule Cons.IH)
    then show ?thesis by (simp add: Suc)
  qed
qed

lemma insort_erase:
  "map erase_rank (insort_key (\<lambda>x. - match_score x) c cs) =
   insort_key (\<lambda>x. - match_score x) (erase_rank c) (map erase_rank cs)"
  by (induction cs) (simp_all add: erase_rank_def)

lemma sort_key_erase:
  "map erase_rank (sort_key (\<lambda>x. - match_score x) cs) =
   sort_key (\<lambda>x. - match_score x) (map erase_rank cs)"
  by (induction cs) (simp_all add: insort_erase)

lemma rank_candidates_erase:
  "map erase_rank (rank_candidates cs reqs) = sort_key (\<lambda>x. - match_score x) (map erase_rank cs)"
  by (simp add: rank_candidates_def assign_ranks_erase sort_key_erase)

lemma rank_candidates_scores:
  "map match_score (rank_candidates cs reqs) = map match_score (sort_key (\<lambda>x. - match_score x) cs)"
  by (simp add: rank_candidates_def assign_ranks_score)

lemma rank_candidates_length: "length (rank_candidates cs reqs) = length cs"
  by (simp add: rank_candidates_def assign_ranks_length)

lemma rank_candidates_descending:
  assumes "i < j" and "j < length (rank_candidates cs reqs)"
  shows "match_score (rank_candidates cs reqs ! j) \<le> match_score (rank_candidates cs reqs ! i)"
proof -
  let ?s = "sort_key (\<lambda>x. - match_score x) cs"
  have l: "length ?s = length (rank_candidates cs reqs)"
    by (simp add: rank_candidates_length)
  have "sorted (map (\<lambda>x. - match_score x) ?s)" by (rule sorted_sort_key)
  then have "map (\<lambda>x. - match_score x) ?s ! i \<le> map (\<lambda>x. - match_score x) ?s ! j"
    using assms l by (intro sorted_nth_mono) simp_all
  then have "match_score (?s ! j) \<le> match_score (?s ! i)"
    using assms l by simp
  moreover have "match_score (rank_candidates cs reqs ! j) = match_score (?s ! j)"
    using rank_candidates_scores [of cs reqs] assms l
    by (metis nth_map)
  moreover have "match_score (rank_candidates cs reqs ! i) = match_score (?s ! i)"
    using rank_candidates_scores [of cs reqs] assms l
    by (metis nth_map order.strict_trans)
  ultimately show ?thesis by simp
qed

lemma rank_candidates_stable:
  "filter (\<lambda>c. match_score c = k) (map erase_rank (rank_candidates cs reqs)) =
   filter (\<lambda>c. match_score c = k) (map erase_rank cs)"
proof -
  have "filter (\<lambda>c. - match_score c = - k) (sort_key (\<lambda>x. - match_score x) (map erase_rank cs)) =
        filter (\<lambda>c. - match_score c = - k) (map erase_rank cs)"
    by (rule sort_key_stable)
  then show ?thesis by (simp add: rank_candidates_erase)
qed

lemma rank_candidates_rank:
  "n < length cs \<Longrightarrow> rank (rank_candidates cs reqs ! n) = Some (int n + 1)"
  using assign_ranks_nth [of n "sort_key (\<lambda>x. - match_score x) cs" 0]
  by (simp add: rank_candidates_def)

lemma example_ranking:
  "rank_candidates [ann_match 0.5, bob_match 0.5, bob_match 0.9] [''python'', ''java''] =
     [(bob_match 0.9)\<lparr>rank := Some 1\<rparr>, (ann_match 0.5)\<lparr>rank := Some 2\<rparr>,
      (bob_match 0.5)\<lparr>rank := Some 3\<rparr>]"
  by (simp add: rank_candidates_def ann_match_def bob_match_def)

section \<open>The claims about the ranker\<close>

text \<open>
  Claim C5. \<open>rank_candidates\<close> returns the candidates in descending order of their
  score: of two results, the later one never has the larger score. Candidates with the
  same score keep their order (the sort is stable), and the ranks are 1, 2, ..., N in
  the order of the list.
\<close>

theorem ranking_sorted_stable:
  "(\<forall>i j. i < j \<and> j < length (rank_candidates candidates required_skills) \<longrightarrow>
       match_score (rank_candidates candidates required_skills ! j) \<le>
       match_score (rank_candidates candidates required_skills ! i)) \<and>
   (\<forall>k. filter (\<lambda>c. match_score c = k) (map erase_rank (rank_candidates candidates required_skills)) =
        filter (\<lambda>c. match_score c = k) (map erase_rank candidates)) \<and>
   length (rank_candidates candidates required_skills) = length candidates \<and>
   (\<forall>n. n < length candidates \<longrightarrow>
       rank (rank_candidates candidates required_skills ! n) = Some (int n + 1)) \<and>
   map rank (rank_candidates candidates required_skills) = map Some [1..int (length candidates)]"
proof (intro conjI allI impI)
  fix i j
  assume "i < j \<and> j < length (rank_candidates candidates required_skills)"
  then show "match_score (rank_candidates candidates required_skills ! j) \<le>
       match_score (rank_candidates candidates required_skills ! i)"
    using rank_candidates_descending by blast
next
  fix k
  show "filter (\<lambda>c. match_score c = k) (map erase_rank (rank_candidates candidates required_skills)) =
        filter (\<lambda>c. match_score c = k) (map erase_rank candidates)"
    by (rule rank_candidates_stable)
next
  show "length (rank_candidates candidates required_skills) = length candidates"
    by (rule rank_candidates_length)
next
  fix n
  assume "n < length candidates"
  then show "rank (rank_candidates candidates required_skills ! n) = Some (int n + 1)"
    by (rule rank_candidates_rank)
next
  show "map rank (rank_candidates candidates required_skills) = map Some [1..int (length candidates)]"
  proof (rule nth_equalityI)
    show "length (map rank (rank_candidates candidates required_skills)) =
          length (map Some [1..int (length candidates)])"
      by (simp add: rank_candidates_length)
  next
    fix n
    assume "n < length (map rank (rank_candidates candidates required_skills))"
    then have n: "n < length candidates" by (simp add: rank_candidates_length)
    then have "[1..int (length candidates)] ! n = 1 + int n"
      by (intro nth_upto) simp
    with n show "map rank (rank_candidates candidates required_skills) ! n =
          map Some [1..int (length candidates)] ! n"
      by (simp add: rank_candidates_length rank_candidates_rank)
  qed
qed

theorem ranking_sorted_stable_witness:
  "rank_candidates [ann_match 0.5, bob_match 0.5, bob_match 0.9] [''python'', ''java''] =
     [(bob_match 0.9)\<lparr>rank := Some 1\<rparr>, (ann_match 0.5)\<lparr>rank := Some 2\<rparr>,
      (bob_match 0.5)\<lparr>rank := Some 3\<rparr>] \<and>
   (1::nat) < 2 \<and>
   2 < length (rank_candidates [ann_match 0.5, bob_match 0.5, bob_match 0.9] [''python'', ''java'']) \<and>
   match_score (rank_candidates [ann_match 0.5, bob_match 0.5, bob_match 0.9] [''python'', ''java''] ! 2) \<le>
   match_score (rank_candidates [ann_match 0.5, bob_match 0.5, bob_match 0.9] [''python'', ''java''] ! 1) \<and>
   (2::nat) < length [ann_match 0.5, bob_match 0.5, bob_match 0.9] \<and>
   rank (rank_candidates [ann_match 0.5, bob_match 0.5, bob_match 0.9] [''python'', ''java''] ! 2) = Some 3"
proof -
  let ?cs = "[ann_match 0.5, bob_match 0.5, bob_match 0.9]"
  let ?out = "rank_candidates ?cs [''python'', ''java'']"
  note t = ranking_sorted_stable [of ?cs "[''python'', ''java'']"]
  have l: "(1::nat) < 2 \<and> 2 < length ?out" using t by simp
  with t have s: "match_score (?out ! 2) \<le> match_score (?out ! 1)" by blast
  have n: "(2::nat) < length ?cs" by simp
  with t have "rank (?out ! 2) = Some (int 2 + 1)" by blast
  then have r: "rank (?out ! 2) = Some 3" by simp
  from example_ranking l s n r show ?thesis by blast
qed

text \<open>
  Claim C10. \<open>rank_candidates\<close> returns a permutation of its input: apart from the
  rank it stores, the results are the candidates it was given, each as often as it was
  given. The required skills it receives do not change the result.
\<close>

theorem ranking_is_permutation:
  "mset (map erase_rank (rank_candidates candidates required_skills)) =
     mset (map erase_rank candidates) \<and>
   length (rank_candidates candidates required_skills) = length candidates \<and>
   rank_candidates candidates required_skills = rank_candidates candidates other_skills"
  by (simp add: rank_candidates_erase rank_candidates_length) (simp add: rank_candidates_def)

section \<open>Properties of the structurer\<close>








lemma relativedelta_forward: "relativedelta date_2021 date_2019 = (2, 0)"
  unfolding date_2019_def date_2021_def by code_simp

lemma forward_duration: "duration_years (calculate_duration example_now forward_entry) = 2"
  by (simp add: calculate_duration_def forward_entry_def new_experience_def
        relativedelta_forward delta_years_def)

lemma example_extraction:
  "extract_information example_extractors (Some ''Ann Lee'') = Some example_resume"
  by (simp add: extract_information_def extract_fields_def example_extractors_def
        example_resume_def calculate_total_experience_def forward_duration)

lemma example_extraction_raises:
  "extraction_raises example_extractors ''A text of more than twenty characters''"
  by (simp add: extraction_raises_def example_extractors_def)

section \<open>The claims about the structurer\<close>




text \<open>
  Claim C9. \<open>extract_information\<close> returns \<open>None\<close> exactly when the text is absent,
  the text is empty, or an extractor raises; otherwise it returns the record whose
  fields are the results of the extractors, with the total experience computed from
  the experience entries and the text kept as \<open>raw_text\<close>.
\<close>

theorem extract_information_failure:
  "(extract_information E text = None \<longleftrightarrow>
      text = None \<or> text = Some [] \<or> (\<exists>t. text = Some t \<and> extraction_raises E t)) \<and>
   (\<forall>t. text = Some t \<and> t \<noteq> [] \<and> \<not> extraction_raises E t \<longrightarrow>
      (\<exists>ri doc. extract_information E text = Some ri \<and>
         nlp E t = Inr doc \<and>
         extract_name E doc t = Inr (resume_info.name ri) \<and>
         extract_contact_info E t = Inr (contact ri) \<and>
         extract_skills E t = Inr (resume_info.skills ri) \<and>
         extract_education E t doc = Inr (education ri) \<and>
         extract_experience E t doc = Inr (experience ri) \<and>
         total_experience_years ri = calculate_total_experience (experience ri) \<and>
         raw_text ri = t))"
proof (intro conjI allI impI)
  show "extract_information E text = None \<longleftrightarrow>
      text = None \<or> text = Some [] \<or> (\<exists>t. text = Some t \<and> extraction_raises E t)"
    by (auto simp: extract_information_def extract_fields_def extraction_raises_def
          split: option.splits sum.splits)
next
  fix t
  assume "text = Some t \<and> t \<noteq> [] \<and> \<not> extraction_raises E t"
  then show "\<exists>ri doc. extract_information E text = Some ri \<and>
         nlp E t = Inr doc \<and>
         extract_name E doc t = Inr (resume_info.name ri) \<and>
         extract_contact_info E t = Inr (contact ri) \<and>
         extract_skills E t = Inr (resume_info.skills ri) \<and>
         extract_education E t doc = Inr (education ri) \<and>
         extract_experience E t doc = Inr (experience ri) \<and>
         total_experience_years ri = calculate_total_experience (experience ri) \<and>
         raw_text ri = t"
    by (auto simp: extract_information_def extract_fields_def extraction_raises_def
          split: option.splits sum.splits)
qed

theorem extract_information_failure_witness:
  "extract_information example_extractors None = None \<and>
   extract_information example_extractors (Some []) = None \<and>
   extraction_raises example_extractors ''A text of more than twenty characters'' \<and>
   extract_information example_extractors (Some ''A text of more than twenty characters'') = None \<and>
   ''Ann Lee'' \<noteq> [] \<and> \<not> extraction_raises example_extractors ''Ann Lee'' \<and>
   extract_information example_extractors (Some ''Ann Lee'') = Some example_resume"
proof -
  note n = extract_information_failure [of example_extractors None]
  note e = extract_information_failure [of example_extractors "Some []"]
  note r = extract_information_failure
    [of example_extractors "Some ''A text of more than twenty characters''"]
  note s = extract_information_failure [of example_extractors "Some ''Ann Lee''"]
  have 1: "extract_information example_extractors None = None" using n by blast
  have 2: "extract_information example_extractors (Some []) = None" using e by blast
  have 3: "extract_information example_extractors (Some ''A text of more than twenty characters'') = None"
    using r example_extraction_raises by blast
  have 4: "\<not> extraction_raises example_extractors ''Ann Lee''"
    by (simp add: extraction_raises_def example_extractors_def)
  from s 4 obtain ri where "extract_information example_extractors (Some ''Ann Lee'') = Some ri"
    by blast
  with example_extraction have 5: "extract_information example_extractors (Some ''Ann Lee'') = Some example_resume"
    by simp
  from 1 2 3 4 5 example_extraction_raises show ?thesis by simp
qed

end
